theory Spec2Isabelle
  imports Main "HOL-Library.Word" "HOL-Library.Sublist"
begin

unbundle bit_operations_syntax

section \<open>SMBIOS type 0 (BIOS Information): data model\<close>

text \<open>
  The embedding follows \<^verbatim>\<open>pkg/smbios/type0_bios_information.go\<close>.
  Go's \<^verbatim>\<open>uint8\<close>, \<^verbatim>\<open>uint16\<close> and \<^verbatim>\<open>uint64\<close> are words of that width.
  Go's \<^verbatim>\<open>uint\<close> is as wide as the machine word of the build: 32 bits on 386 and arm,
  64 bits on amd64, arm64 and riscv64; the file carries no build constraint. Its width is
  therefore a parameter of the model: a value of type \<^verbatim>\<open>uint\<close> is a \<open>'u word\<close>, and a
  function that uses \<^verbatim>\<open>uint\<close> only inside takes the width as an argument \<open>TYPE('u)\<close>.
  \<^verbatim>\<open>int\<close> is a mathematical integer: the code only compares it or stays below
  \<open>2 ^ 21\<close>.
\<close>

type_synonym uint8 = "8 word"
type_synonym uint16 = "16 word"
type_synonym uint64 = "64 word"

type_synonym TableType = uint8
type_synonym BIOSCharacteristics = uint64
type_synonym BIOSCharacteristicsExt1 = uint8
type_synonym BIOSCharacteristicsExt2 = uint8

definition TableTypeBIOSInformation :: TableType where
  "TableTypeBIOSInformation = 0"

text \<open>
  Modelled from the spec: the generic \<^verbatim>\<open>Table\<close> type, its \<^verbatim>\<open>Len\<close> method and the
  header's \<^verbatim>\<open>String\<close> method are declared elsewhere in the package. The record keeps what
  this file reads of a table: the type tag \<^verbatim>\<open>t.Type\<close>, the value of \<^verbatim>\<open>t.Len()\<close> (the
  declared byte length of the structured part) and the text of \<^verbatim>\<open>t.Header.String()\<close>.
\<close>

record Table =
  Type :: TableType
  Len :: int
  HeaderString :: string

record BIOSInformation = Table +
  Vendor :: string
  Version :: string
  StartingAddressSegment :: uint16
  ReleaseDate :: string
  ROMSize :: uint8
  Characteristics :: BIOSCharacteristics
  CharacteristicsExt1 :: BIOSCharacteristicsExt1
  CharacteristicsExt2 :: BIOSCharacteristicsExt2
  SystemBIOSMajorRelease :: uint8
  SystemBIOSMinorRelease :: uint8
  EmbeddedControllerFirmwareMajorRelease :: uint8
  EmbeddedControllerFirmwareMinorRelease :: uint8
  ExtendedROMSize :: uint16

section \<open>The decoder\<close>

text \<open>
  The two errors \<^verbatim>\<open>NewBIOSInformation\<close> builds itself are
  \<^verbatim>\<open>fmt.Errorf("invalid table type %d", t.Type)\<close> (the spec's WrongType) and
  \<^verbatim>\<open>errors.New("required fields missing")\<close> (the spec's TruncatedRecord); the third
  constructor carries an error handed up from \<^verbatim>\<open>parseStruct\<close>.
\<close>

datatype 'e error =
    InvalidTableType TableType
  | RequiredFieldsMissing
  | ParseStructError 'e

text \<open>\<^verbatim>\<open>&BIOSInformation{Table: *t}\<close>: the table copied, every other field at its zero value.\<close>

definition BIOSInformation_of_Table :: "Table \<Rightarrow> BIOSInformation" where
  "BIOSInformation_of_Table t =
     \<lparr> Type = Type t, Len = Len t, HeaderString = HeaderString t,
       Vendor = [], Version = [], StartingAddressSegment = 0, ReleaseDate = [],
       ROMSize = 0, Characteristics = 0, CharacteristicsExt1 = 0, CharacteristicsExt2 = 0,
       SystemBIOSMajorRelease = 0, SystemBIOSMinorRelease = 0,
       EmbeddedControllerFirmwareMajorRelease = 0, EmbeddedControllerFirmwareMinorRelease = 0,
       ExtendedROMSize = 0 \<rparr>"

text \<open>
  \<^verbatim>\<open>parseStruct\<close>, the package's reflective field reader, is not part of this file: it is a
  parameter. It receives the table, the offset \<open>0\<close>, the flag \<^verbatim>\<open>complete = false\<close> and the
  record to fill, and returns an error or the offset reached together with the filled record.
\<close>

type_synonym 'e parseStruct =
  "Table \<Rightarrow> int \<Rightarrow> bool \<Rightarrow> BIOSInformation \<Rightarrow> 'e + int \<times> BIOSInformation"

definition NewBIOSInformation :: "'e parseStruct \<Rightarrow> Table \<Rightarrow> 'e error + BIOSInformation" where
  "NewBIOSInformation parseStruct t =
     (if Type t \<noteq> TableTypeBIOSInformation then Inl (InvalidTableType (Type t))
      else if Len t < 0x12 then Inl RequiredFieldsMissing
      else (case parseStruct t 0 False (BIOSInformation_of_Table t) of
              Inl err \<Rightarrow> Inl (ParseStructError err)
            | Inr (_, bi) \<Rightarrow> Inr bi))"

text \<open>A field reader that reads nothing, for evaluating the decoder on concrete tables.\<close>

definition parseStruct_skip :: "unit parseStruct" where
  "parseStruct_skip t off complete bi = Inr (off, bi)"

section \<open>ROM size\<close>

text \<open>The result type \<open>'u word\<close> is Go's \<^verbatim>\<open>uint\<close> at the width of the build.\<close>

definition GetROMSizeBytes :: "BIOSInformation \<Rightarrow> 'u::len word" where
  "GetROMSizeBytes bi =
     (if ROMSize bi \<noteq> 0xff then 65536 * (ucast (ROMSize bi) + 1)
      else
        let extSize = (if Len bi \<ge> 0x1a then ucast (ExtendedROMSize bi) else 0x10) :: 'u word;
            unit = drop_bit 14 extSize;
            multiplier = (if unit = 0 then 1024 * 1024
                          else if unit = 1 then 1024 * 1024 * 1024
                          else 1)
        in (extSize AND 0x3fff) * multiplier)"

section \<open>Text formatting\<close>

abbreviation (input) TAB :: char where
  "TAB \<equiv> CHR 0x09"

text \<open>\<^verbatim>\<open>strings.Join(elems, sep)\<close>: the elements, with the separator between neighbours.\<close>

fun strings_Join :: "string list \<Rightarrow> string \<Rightarrow> string" where
  "strings_Join [] sep = []"
| "strings_Join [x] sep = x"
| "strings_Join (x # y # ys) sep = x @ sep @ strings_Join (y # ys) sep"

text \<open>The verb \<^verbatim>\<open>%d\<close> on an unsigned value: its decimal digits, most significant first.\<close>

fun fmt_d :: "nat \<Rightarrow> string" where
  "fmt_d n =
     (if n < 10 then [''0123456789'' ! n]
      else fmt_d (n div 10) @ [''0123456789'' ! (n mod 10)])"

text \<open>The verb \<^verbatim>\<open>%d\<close> on a signed value.\<close>

definition fmt_d_int :: "int \<Rightarrow> string" where
  "fmt_d_int i = (if i < 0 then CHR ''-'' # fmt_d (nat (- i)) else fmt_d (nat i))"

text \<open>The verb \<^verbatim>\<open>%X\<close>: upper-case hexadecimal digits, most significant first.\<close>

fun fmt_X :: "nat \<Rightarrow> string" where
  "fmt_X n =
     (if n < 16 then [''0123456789ABCDEF'' ! n]
      else fmt_X (n div 16) @ [''0123456789ABCDEF'' ! (n mod 16)])"

text \<open>The verb \<^verbatim>\<open>%04X\<close>: the same, padded on the left with zeros to four characters.\<close>

definition fmt_04X :: "nat \<Rightarrow> string" where
  "fmt_04X n = replicate (4 - length (fmt_X n)) CHR ''0'' @ fmt_X n"

section \<open>The flag renderers\<close>

text \<open>
  One step of the if-chains below:
  \<^verbatim>\<open>if v&flag != 0 { lines = append(lines, text) }\<close>.
\<close>

definition append_if :: "bool \<Rightarrow> string list \<Rightarrow> string \<Rightarrow> string list" where
  "append_if c lines s = (if c then lines @ [s] else lines)"

text \<open>The bits of \<^verbatim>\<open>BIOSCharacteristics\<close>.\<close>

definition BIOSCharacteristicsReserved :: BIOSCharacteristics where
  "BIOSCharacteristicsReserved = push_bit 0 1"

definition BIOSCharacteristicsReserved2 :: BIOSCharacteristics where
  "BIOSCharacteristicsReserved2 = push_bit 1 1"

definition BIOSCharacteristicsUnknown :: BIOSCharacteristics where
  "BIOSCharacteristicsUnknown = push_bit 2 1"

definition BIOSCharacteristicsBIOSCharacteristicsAreNotSupported :: BIOSCharacteristics where
  "BIOSCharacteristicsBIOSCharacteristicsAreNotSupported = push_bit 3 1"

definition BIOSCharacteristicsISAIsSupported :: BIOSCharacteristics where
  "BIOSCharacteristicsISAIsSupported = push_bit 4 1"

definition BIOSCharacteristicsMCAIsSupported :: BIOSCharacteristics where
  "BIOSCharacteristicsMCAIsSupported = push_bit 5 1"

definition BIOSCharacteristicsEISAIsSupported :: BIOSCharacteristics where
  "BIOSCharacteristicsEISAIsSupported = push_bit 6 1"

definition BIOSCharacteristicsPCIIsSupported :: BIOSCharacteristics where
  "BIOSCharacteristicsPCIIsSupported = push_bit 7 1"

definition BIOSCharacteristicsPCCardPCMCIAIsSupported :: BIOSCharacteristics where
  "BIOSCharacteristicsPCCardPCMCIAIsSupported = push_bit 8 1"

definition BIOSCharacteristicsPlugAndPlayIsSupported :: BIOSCharacteristics where
  "BIOSCharacteristicsPlugAndPlayIsSupported = push_bit 9 1"

definition BIOSCharacteristicsAPMIsSupported :: BIOSCharacteristics where
  "BIOSCharacteristicsAPMIsSupported = push_bit 10 1"

definition BIOSCharacteristicsBIOSIsUpgradeableFlash :: BIOSCharacteristics where
  "BIOSCharacteristicsBIOSIsUpgradeableFlash = push_bit 11 1"

definition BIOSCharacteristicsBIOSShadowingIsAllowed :: BIOSCharacteristics where
  "BIOSCharacteristicsBIOSShadowingIsAllowed = push_bit 12 1"

definition BIOSCharacteristicsVLVESAIsSupported :: BIOSCharacteristics where
  "BIOSCharacteristicsVLVESAIsSupported = push_bit 13 1"

definition BIOSCharacteristicsESCDSupportIsAvailable :: BIOSCharacteristics where
  "BIOSCharacteristicsESCDSupportIsAvailable = push_bit 14 1"

definition BIOSCharacteristicsBootFromCDIsSupported :: BIOSCharacteristics where
  "BIOSCharacteristicsBootFromCDIsSupported = push_bit 15 1"

definition BIOSCharacteristicsSelectableBootIsSupported :: BIOSCharacteristics where
  "BIOSCharacteristicsSelectableBootIsSupported = push_bit 16 1"

definition BIOSCharacteristicsBIOSROMIsSocketed :: BIOSCharacteristics where
  "BIOSCharacteristicsBIOSROMIsSocketed = push_bit 17 1"

definition BIOSCharacteristicsBootFromPCCardPCMCIAIsSupported :: BIOSCharacteristics where
  "BIOSCharacteristicsBootFromPCCardPCMCIAIsSupported = push_bit 18 1"

definition BIOSCharacteristicsEDDSpecificationIsSupported :: BIOSCharacteristics where
  "BIOSCharacteristicsEDDSpecificationIsSupported = push_bit 19 1"

definition BIOSCharacteristicsInt13hJapaneseFloppyForNEC980012MB351KBytessector360RPMIsSupported :: BIOSCharacteristics where
  "BIOSCharacteristicsInt13hJapaneseFloppyForNEC980012MB351KBytessector360RPMIsSupported = push_bit 20 1"

definition BIOSCharacteristicsInt13hJapaneseFloppyForToshiba12MB35360RPMIsSupported :: BIOSCharacteristics where
  "BIOSCharacteristicsInt13hJapaneseFloppyForToshiba12MB35360RPMIsSupported = push_bit 21 1"

definition BIOSCharacteristicsInt13h525360KBFloppyServicesAreSupported :: BIOSCharacteristics where
  "BIOSCharacteristicsInt13h525360KBFloppyServicesAreSupported = push_bit 22 1"

definition BIOSCharacteristicsInt13h52512MBFloppyServicesAreSupported :: BIOSCharacteristics where
  "BIOSCharacteristicsInt13h52512MBFloppyServicesAreSupported = push_bit 23 1"

definition BIOSCharacteristicsInt13h35720KBFloppyServicesAreSupported :: BIOSCharacteristics where
  "BIOSCharacteristicsInt13h35720KBFloppyServicesAreSupported = push_bit 24 1"

definition BIOSCharacteristicsInt13h35288MBFloppyServicesAreSupported :: BIOSCharacteristics where
  "BIOSCharacteristicsInt13h35288MBFloppyServicesAreSupported = push_bit 25 1"

definition BIOSCharacteristicsInt5hPrintScreenServiceIsSupported :: BIOSCharacteristics where
  "BIOSCharacteristicsInt5hPrintScreenServiceIsSupported = push_bit 26 1"

definition BIOSCharacteristicsInt9h8042KeyboardServicesAreSupported :: BIOSCharacteristics where
  "BIOSCharacteristicsInt9h8042KeyboardServicesAreSupported = push_bit 27 1"

definition BIOSCharacteristicsInt14hSerialServicesAreSupported :: BIOSCharacteristics where
  "BIOSCharacteristicsInt14hSerialServicesAreSupported = push_bit 28 1"

definition BIOSCharacteristicsInt17hPrinterServicesAreSupported :: BIOSCharacteristics where
  "BIOSCharacteristicsInt17hPrinterServicesAreSupported = push_bit 29 1"

definition BIOSCharacteristicsInt10hCGAMonoVideoServicesAreSupported :: BIOSCharacteristics where
  "BIOSCharacteristicsInt10hCGAMonoVideoServicesAreSupported = push_bit 30 1"

definition BIOSCharacteristicsNECPC98 :: BIOSCharacteristics where
  "BIOSCharacteristicsNECPC98 = push_bit 31 1"

definition BIOSCharacteristics_lines :: "BIOSCharacteristics \<Rightarrow> string list" where
  \<open>BIOSCharacteristics_lines v =
     (let lines = [];
          lines = append_if (v AND BIOSCharacteristicsReserved \<noteq> 0)
                    lines (TAB # TAB # ''Reserved'');
          lines = append_if (v AND BIOSCharacteristicsReserved2 \<noteq> 0)
                    lines (TAB # TAB # ''Reserved'');
          lines = append_if (v AND BIOSCharacteristicsUnknown \<noteq> 0)
                    lines (TAB # TAB # ''Unknown'');
          lines = append_if (v AND BIOSCharacteristicsBIOSCharacteristicsAreNotSupported \<noteq> 0)
                    lines (TAB # TAB # ''BIOS characteristics not supported'');
          lines = append_if (v AND BIOSCharacteristicsISAIsSupported \<noteq> 0)
                    lines (TAB # TAB # ''ISA is supported'');
          lines = append_if (v AND BIOSCharacteristicsMCAIsSupported \<noteq> 0)
                    lines (TAB # TAB # ''MCA is supported'');
          lines = append_if (v AND BIOSCharacteristicsEISAIsSupported \<noteq> 0)
                    lines (TAB # TAB # ''EISA is supported'');
          lines = append_if (v AND BIOSCharacteristicsPCIIsSupported \<noteq> 0)
                    lines (TAB # TAB # ''PCI is supported'');
          lines = append_if (v AND BIOSCharacteristicsPCCardPCMCIAIsSupported \<noteq> 0)
                    lines (TAB # TAB # ''PC Card (PCMCIA) is supported'');
          lines = append_if (v AND BIOSCharacteristicsPlugAndPlayIsSupported \<noteq> 0)
                    lines (TAB # TAB # ''PNP is supported'');
          lines = append_if (v AND BIOSCharacteristicsAPMIsSupported \<noteq> 0)
                    lines (TAB # TAB # ''APM is supported'');
          lines = append_if (v AND BIOSCharacteristicsBIOSIsUpgradeableFlash \<noteq> 0)
                    lines (TAB # TAB # ''BIOS is upgradeable'');
          lines = append_if (v AND BIOSCharacteristicsBIOSShadowingIsAllowed \<noteq> 0)
                    lines (TAB # TAB # ''BIOS shadowing is allowed'');
          lines = append_if (v AND BIOSCharacteristicsVLVESAIsSupported \<noteq> 0)
                    lines (TAB # TAB # ''VLB is supported'');
          lines = append_if (v AND BIOSCharacteristicsESCDSupportIsAvailable \<noteq> 0)
                    lines (TAB # TAB # ''ESCD support is available'');
          lines = append_if (v AND BIOSCharacteristicsBootFromCDIsSupported \<noteq> 0)
                    lines (TAB # TAB # ''Boot from CD is supported'');
          lines = append_if (v AND BIOSCharacteristicsSelectableBootIsSupported \<noteq> 0)
                    lines (TAB # TAB # ''Selectable boot is supported'');
          lines = append_if (v AND BIOSCharacteristicsBIOSROMIsSocketed \<noteq> 0)
                    lines (TAB # TAB # ''BIOS ROM is socketed'');
          lines = append_if (v AND BIOSCharacteristicsBootFromPCCardPCMCIAIsSupported \<noteq> 0)
                    lines (TAB # TAB # ''Boot from PC Card (PCMCIA) is supported'');
          lines = append_if (v AND BIOSCharacteristicsEDDSpecificationIsSupported \<noteq> 0)
                    lines (TAB # TAB # ''EDD is supported'');
          lines = append_if (v AND BIOSCharacteristicsInt13hJapaneseFloppyForNEC980012MB351KBytessector360RPMIsSupported \<noteq> 0)
                    lines (TAB # TAB # ''Japanese floppy for NEC 9800 1.2 MB is supported (int 13h)'');
          lines = append_if (v AND BIOSCharacteristicsInt13hJapaneseFloppyForToshiba12MB35360RPMIsSupported \<noteq> 0)
                    lines (TAB # TAB # ''Japanese floppy for Toshiba 1.2 MB is supported (int 13h)'');
          lines = append_if (v AND BIOSCharacteristicsInt13h525360KBFloppyServicesAreSupported \<noteq> 0)
                    lines (TAB # TAB # ''5.25"/360 kB floppy services are supported (int 13h)'');
          lines = append_if (v AND BIOSCharacteristicsInt13h52512MBFloppyServicesAreSupported \<noteq> 0)
                    lines (TAB # TAB # ''5.25"/1.2 MB floppy services are supported (int 13h)'');
          lines = append_if (v AND BIOSCharacteristicsInt13h35720KBFloppyServicesAreSupported \<noteq> 0)
                    lines (TAB # TAB # ''3.5"/720 kB floppy services are supported (int 13h)'');
          lines = append_if (v AND BIOSCharacteristicsInt13h35288MBFloppyServicesAreSupported \<noteq> 0)
                    lines (TAB # TAB # ''3.5"/2.88 MB floppy services are supported (int 13h)'');
          lines = append_if (v AND BIOSCharacteristicsInt5hPrintScreenServiceIsSupported \<noteq> 0)
                    lines (TAB # TAB # ''Print screen service is supported (int 5h)'');
          lines = append_if (v AND BIOSCharacteristicsInt9h8042KeyboardServicesAreSupported \<noteq> 0)
                    lines (TAB # TAB # ''8042 keyboard services are supported (int 9h)'');
          lines = append_if (v AND BIOSCharacteristicsInt14hSerialServicesAreSupported \<noteq> 0)
                    lines (TAB # TAB # ''Serial services are supported (int 14h)'');
          lines = append_if (v AND BIOSCharacteristicsInt17hPrinterServicesAreSupported \<noteq> 0)
                    lines (TAB # TAB # ''Printer services are supported (int 17h)'');
          lines = append_if (v AND BIOSCharacteristicsInt10hCGAMonoVideoServicesAreSupported \<noteq> 0)
                    lines (TAB # TAB # ''CGA/mono video services are supported (int 10h)'');
          lines = append_if (v AND BIOSCharacteristicsNECPC98 \<noteq> 0)
                    lines (TAB # TAB # ''NEC PC-98'')
      in lines)\<close>

definition BIOSCharacteristics_String :: "BIOSCharacteristics \<Rightarrow> string" where
  "BIOSCharacteristics_String v = strings_Join (BIOSCharacteristics_lines v) ''\<newline>''"

text \<open>The bits of \<^verbatim>\<open>BIOSCharacteristicsExt1\<close>.\<close>

definition BIOSCharacteristicsExt1ACPIIsSupported :: BIOSCharacteristicsExt1 where
  "BIOSCharacteristicsExt1ACPIIsSupported = push_bit 0 1"

definition BIOSCharacteristicsExt1USBLegacyIsSupported :: BIOSCharacteristicsExt1 where
  "BIOSCharacteristicsExt1USBLegacyIsSupported = push_bit 1 1"

definition BIOSCharacteristicsExt1AGPIsSupported :: BIOSCharacteristicsExt1 where
  "BIOSCharacteristicsExt1AGPIsSupported = push_bit 2 1"

definition BIOSCharacteristicsExt1I2OBootIsSupported :: BIOSCharacteristicsExt1 where
  "BIOSCharacteristicsExt1I2OBootIsSupported = push_bit 3 1"

definition BIOSCharacteristicsExt1LS120SuperDiskBootIsSupported :: BIOSCharacteristicsExt1 where
  "BIOSCharacteristicsExt1LS120SuperDiskBootIsSupported = push_bit 4 1"

definition BIOSCharacteristicsExt1ATAPIZIPDriveBootIsSupported :: BIOSCharacteristicsExt1 where
  "BIOSCharacteristicsExt1ATAPIZIPDriveBootIsSupported = push_bit 5 1"

definition BIOSCharacteristicsExt11394BootIsSupported :: BIOSCharacteristicsExt1 where
  "BIOSCharacteristicsExt11394BootIsSupported = push_bit 6 1"

definition BIOSCharacteristicsExt1SmartBatteryIsSupported :: BIOSCharacteristicsExt1 where
  "BIOSCharacteristicsExt1SmartBatteryIsSupported = push_bit 7 1"

definition BIOSCharacteristicsExt1_lines :: "BIOSCharacteristicsExt1 \<Rightarrow> string list" where
  \<open>BIOSCharacteristicsExt1_lines v =
     (let lines = [];
          lines = append_if (v AND BIOSCharacteristicsExt1ACPIIsSupported \<noteq> 0)
                    lines (TAB # TAB # ''ACPI is supported'');
          lines = append_if (v AND BIOSCharacteristicsExt1USBLegacyIsSupported \<noteq> 0)
                    lines (TAB # TAB # ''USB legacy is supported'');
          lines = append_if (v AND BIOSCharacteristicsExt1AGPIsSupported \<noteq> 0)
                    lines (TAB # TAB # ''AGP is supported'');
          lines = append_if (v AND BIOSCharacteristicsExt1I2OBootIsSupported \<noteq> 0)
                    lines (TAB # TAB # ''I2O boot is supported'');
          lines = append_if (v AND BIOSCharacteristicsExt1LS120SuperDiskBootIsSupported \<noteq> 0)
                    lines (TAB # TAB # ''LS-120 boot is supported'');
          lines = append_if (v AND BIOSCharacteristicsExt1ATAPIZIPDriveBootIsSupported \<noteq> 0)
                    lines (TAB # TAB # ''ATAPI Zip drive boot is supported'');
          lines = append_if (v AND BIOSCharacteristicsExt11394BootIsSupported \<noteq> 0)
                    lines (TAB # TAB # ''IEEE 1394 boot is supported'');
          lines = append_if (v AND BIOSCharacteristicsExt1SmartBatteryIsSupported \<noteq> 0)
                    lines (TAB # TAB # ''Smart battery is supported'')
      in lines)\<close>

definition BIOSCharacteristicsExt1_String :: "BIOSCharacteristicsExt1 \<Rightarrow> string" where
  "BIOSCharacteristicsExt1_String v = strings_Join (BIOSCharacteristicsExt1_lines v) ''\<newline>''"

text \<open>The bits of \<^verbatim>\<open>BIOSCharacteristicsExt2\<close>.\<close>

definition BIOSCharacteristicsExt2BIOSBootSpecificationIsSupported :: BIOSCharacteristicsExt2 where
  "BIOSCharacteristicsExt2BIOSBootSpecificationIsSupported = push_bit 0 1"

definition BIOSCharacteristicsExt2FunctionKeyinitiatedNetworkServiceBootIsSupported :: BIOSCharacteristicsExt2 where
  "BIOSCharacteristicsExt2FunctionKeyinitiatedNetworkServiceBootIsSupported = push_bit 1 1"

definition BIOSCharacteristicsExt2TargetedContentDistributionIsSupported :: BIOSCharacteristicsExt2 where
  "BIOSCharacteristicsExt2TargetedContentDistributionIsSupported = push_bit 2 1"

definition BIOSCharacteristicsExt2UEFISpecificationIsSupported :: BIOSCharacteristicsExt2 where
  "BIOSCharacteristicsExt2UEFISpecificationIsSupported = push_bit 3 1"

definition BIOSCharacteristicsExt2SMBIOSTableDescribesAVirtualMachine :: BIOSCharacteristicsExt2 where
  "BIOSCharacteristicsExt2SMBIOSTableDescribesAVirtualMachine = push_bit 4 1"

definition BIOSCharacteristicsExt2_lines :: "BIOSCharacteristicsExt2 \<Rightarrow> string list" where
  \<open>BIOSCharacteristicsExt2_lines v =
     (let lines = [];
          lines = append_if (v AND BIOSCharacteristicsExt2BIOSBootSpecificationIsSupported \<noteq> 0)
                    lines (TAB # TAB # ''BIOS boot specification is supported'');
          lines = append_if (v AND BIOSCharacteristicsExt2FunctionKeyinitiatedNetworkServiceBootIsSupported \<noteq> 0)
                    lines (TAB # TAB # ''Function key-initiated network boot is supported'');
          lines = append_if (v AND BIOSCharacteristicsExt2TargetedContentDistributionIsSupported \<noteq> 0)
                    lines (TAB # TAB # ''Targeted content distribution is supported'');
          lines = append_if (v AND BIOSCharacteristicsExt2UEFISpecificationIsSupported \<noteq> 0)
                    lines (TAB # TAB # ''UEFI is supported'');
          lines = append_if (v AND BIOSCharacteristicsExt2SMBIOSTableDescribesAVirtualMachine \<noteq> 0)
                    lines (TAB # TAB # ''System is a virtual machine'')
      in lines)\<close>

definition BIOSCharacteristicsExt2_String :: "BIOSCharacteristicsExt2 \<Rightarrow> string" where
  "BIOSCharacteristicsExt2_String v = strings_Join (BIOSCharacteristicsExt2_lines v) ''\<newline>''"

section \<open>The summary\<close>

text \<open>
  \<^verbatim>\<open>BIOSInformation.String\<close> collects lines and joins them with newlines.
  \<open>BIOSInformation_lines\<close> is the final value of its local variable \<^verbatim>\<open>lines\<close>.
  The runtime size is computed on \<^verbatim>\<open>int\<close>; its operand is at most \<open>2 ^ 20\<close> and never
  negative, so division is the same in Go and in HOL. The first argument is the width of
  \<^verbatim>\<open>uint\<close>, the type of the local variable \<^verbatim>\<open>bs\<close>.
\<close>

definition BIOSInformation_lines :: "'u::len itself \<Rightarrow> BIOSInformation \<Rightarrow> string list" where
  \<open>BIOSInformation_lines (width :: 'u itself) bi =
     (let lines = [HeaderString bi,
                   TAB # ''Vendor: '' @ Vendor bi,
                   TAB # ''Version: '' @ Version bi,
                   TAB # ''Release Date: '' @ ReleaseDate bi];
          lines = (if StartingAddressSegment bi \<noteq> 0
                   then lines @
                     [TAB # ''Address: 0x'' @ fmt_04X (unat (StartingAddressSegment bi)) @ ''0'',
                      TAB # ''Runtime Size: '' @
                        fmt_d_int (push_bit 4 (0x10000 - uint (StartingAddressSegment bi)) div 1024)
                        @ '' kB'']
                   else lines);
          bs = (GetROMSizeBytes bi :: 'u word);
          lines = (if bs < 1024
                     then lines @ [TAB # ''ROM Size: '' @ fmt_d (unat bs)]
                   else if bs < 1024 * 1024
                     then lines @ [TAB # ''ROM Size: '' @ fmt_d (unat (bs div 1024)) @ '' kB'']
                   else if bs < 1024 * 1024 * 1024
                     then lines @
                       [TAB # ''ROM Size: '' @ fmt_d (unat (bs div 1024 div 1024)) @ '' MB'']
                   else lines @
                       [TAB # ''ROM Size: '' @ fmt_d (unat (bs div 1024 div 1024 div 1024))
                          @ '' GB'']);
          lines = lines @
                    [TAB # ''Characteristics:\<newline>'' @
                       BIOSCharacteristics_String (Characteristics bi),
                     BIOSCharacteristicsExt1_String (CharacteristicsExt1 bi),
                     BIOSCharacteristicsExt2_String (CharacteristicsExt2 bi)];
          lines = (if Len bi \<ge> 0x16 \<and> SystemBIOSMajorRelease bi \<noteq> 0xff
                   then lines @
                     [TAB # ''BIOS Revision: '' @ fmt_d (unat (SystemBIOSMajorRelease bi)) @ ''.''
                        @ fmt_d (unat (SystemBIOSMinorRelease bi))]
                   else lines);
          lines = (if Len bi \<ge> 0x18 \<and> EmbeddedControllerFirmwareMajorRelease bi \<noteq> 0xff
                   then lines @
                     [TAB # ''Firmware Revision: ''
                        @ fmt_d (unat (EmbeddedControllerFirmwareMajorRelease bi)) @ ''.''
                        @ fmt_d (unat (EmbeddedControllerFirmwareMinorRelease bi))]
                   else lines)
      in lines)\<close>

definition BIOSInformation_String :: "'u::len itself \<Rightarrow> BIOSInformation \<Rightarrow> string" where
  "BIOSInformation_String width bi = strings_Join (BIOSInformation_lines width bi) ''\<newline>''"

section \<open>The renderer of the specification\<close>

text \<open>
  The specification describes each renderer as one generic loop over a fixed table of
  (bit position, description) pairs, in the order of the table. \<open>render_flags\<close> is that
  loop; the three tables list the bits the code tests, with the texts it appends.
\<close>

definition render_flags :: "(nat \<times> string) list \<Rightarrow> 'a::len word \<Rightarrow> string list" where
  "render_flags table v = map snd (filter (\<lambda>(i, s). bit v i) table)"

definition BIOSCharacteristics_table :: "(nat \<times> string) list" where
  \<open>BIOSCharacteristics_table =
     [(0, TAB # TAB # ''Reserved''),
      (1, TAB # TAB # ''Reserved''),
      (2, TAB # TAB # ''Unknown''),
      (3, TAB # TAB # ''BIOS characteristics not supported''),
      (4, TAB # TAB # ''ISA is supported''),
      (5, TAB # TAB # ''MCA is supported''),
      (6, TAB # TAB # ''EISA is supported''),
      (7, TAB # TAB # ''PCI is supported''),
      (8, TAB # TAB # ''PC Card (PCMCIA) is supported''),
      (9, TAB # TAB # ''PNP is supported''),
      (10, TAB # TAB # ''APM is supported''),
      (11, TAB # TAB # ''BIOS is upgradeable''),
      (12, TAB # TAB # ''BIOS shadowing is allowed''),
      (13, TAB # TAB # ''VLB is supported''),
      (14, TAB # TAB # ''ESCD support is available''),
      (15, TAB # TAB # ''Boot from CD is supported''),
      (16, TAB # TAB # ''Selectable boot is supported''),
      (17, TAB # TAB # ''BIOS ROM is socketed''),
      (18, TAB # TAB # ''Boot from PC Card (PCMCIA) is supported''),
      (19, TAB # TAB # ''EDD is supported''),
      (20, TAB # TAB # ''Japanese floppy for NEC 9800 1.2 MB is supported (int 13h)''),
      (21, TAB # TAB # ''Japanese floppy for Toshiba 1.2 MB is supported (int 13h)''),
      (22, TAB # TAB # ''5.25"/360 kB floppy services are supported (int 13h)''),
      (23, TAB # TAB # ''5.25"/1.2 MB floppy services are supported (int 13h)''),
      (24, TAB # TAB # ''3.5"/720 kB floppy services are supported (int 13h)''),
      (25, TAB # TAB # ''3.5"/2.88 MB floppy services are supported (int 13h)''),
      (26, TAB # TAB # ''Print screen service is supported (int 5h)''),
      (27, TAB # TAB # ''8042 keyboard services are supported (int 9h)''),
      (28, TAB # TAB # ''Serial services are supported (int 14h)''),
      (29, TAB # TAB # ''Printer services are supported (int 17h)''),
      (30, TAB # TAB # ''CGA/mono video services are supported (int 10h)''),
      (31, TAB # TAB # ''NEC PC-98'')]\<close>

definition BIOSCharacteristicsExt1_table :: "(nat \<times> string) list" where
  \<open>BIOSCharacteristicsExt1_table =
     [(0, TAB # TAB # ''ACPI is supported''),
      (1, TAB # TAB # ''USB legacy is supported''),
      (2, TAB # TAB # ''AGP is supported''),
      (3, TAB # TAB # ''I2O boot is supported''),
      (4, TAB # TAB # ''LS-120 boot is supported''),
      (5, TAB # TAB # ''ATAPI Zip drive boot is supported''),
      (6, TAB # TAB # ''IEEE 1394 boot is supported''),
      (7, TAB # TAB # ''Smart battery is supported'')]\<close>

definition BIOSCharacteristicsExt2_table :: "(nat \<times> string) list" where
  \<open>BIOSCharacteristicsExt2_table =
     [(0, TAB # TAB # ''BIOS boot specification is supported''),
      (1, TAB # TAB # ''Function key-initiated network boot is supported''),
      (2, TAB # TAB # ''Targeted content distribution is supported''),
      (3, TAB # TAB # ''UEFI is supported''),
      (4, TAB # TAB # ''System is a virtual machine'')]\<close>

section \<open>Example records\<close>

text \<open>A record with every field zero except the ones a claim is about.\<close>

definition example_record :: "int \<Rightarrow> uint8 \<Rightarrow> uint16 \<Rightarrow> BIOSInformation" where
  "example_record n rom ext =
     (BIOSInformation_of_Table \<lparr> Type = 0, Len = n, HeaderString = [] \<rparr>)
       \<lparr> ROMSize := rom, ExtendedROMSize := ext \<rparr>"

text \<open>A record for the summary: length, starting address segment and BIOS major release.\<close>

definition example_summary :: "int \<Rightarrow> uint16 \<Rightarrow> uint8 \<Rightarrow> BIOSInformation" where
  "example_summary n seg major =
     (example_record n 0 0)
       \<lparr> StartingAddressSegment := seg, SystemBIOSMajorRelease := major,
         SystemBIOSMinorRelease := 7 \<rparr>"

declare fmt_d.simps [simp del] fmt_X.simps [simp del]

lemmas BIOSCharacteristics_bits =
  BIOSCharacteristicsReserved_def
  BIOSCharacteristicsReserved2_def
  BIOSCharacteristicsUnknown_def
  BIOSCharacteristicsBIOSCharacteristicsAreNotSupported_def
  BIOSCharacteristicsISAIsSupported_def
  BIOSCharacteristicsMCAIsSupported_def
  BIOSCharacteristicsEISAIsSupported_def
  BIOSCharacteristicsPCIIsSupported_def
  BIOSCharacteristicsPCCardPCMCIAIsSupported_def
  BIOSCharacteristicsPlugAndPlayIsSupported_def
  BIOSCharacteristicsAPMIsSupported_def
  BIOSCharacteristicsBIOSIsUpgradeableFlash_def
  BIOSCharacteristicsBIOSShadowingIsAllowed_def
  BIOSCharacteristicsVLVESAIsSupported_def
  BIOSCharacteristicsESCDSupportIsAvailable_def
  BIOSCharacteristicsBootFromCDIsSupported_def
  BIOSCharacteristicsSelectableBootIsSupported_def
  BIOSCharacteristicsBIOSROMIsSocketed_def
  BIOSCharacteristicsBootFromPCCardPCMCIAIsSupported_def
  BIOSCharacteristicsEDDSpecificationIsSupported_def
  BIOSCharacteristicsInt13hJapaneseFloppyForNEC980012MB351KBytessector360RPMIsSupported_def
  BIOSCharacteristicsInt13hJapaneseFloppyForToshiba12MB35360RPMIsSupported_def
  BIOSCharacteristicsInt13h525360KBFloppyServicesAreSupported_def
  BIOSCharacteristicsInt13h52512MBFloppyServicesAreSupported_def
  BIOSCharacteristicsInt13h35720KBFloppyServicesAreSupported_def
  BIOSCharacteristicsInt13h35288MBFloppyServicesAreSupported_def
  BIOSCharacteristicsInt5hPrintScreenServiceIsSupported_def
  BIOSCharacteristicsInt9h8042KeyboardServicesAreSupported_def
  BIOSCharacteristicsInt14hSerialServicesAreSupported_def
  BIOSCharacteristicsInt17hPrinterServicesAreSupported_def
  BIOSCharacteristicsInt10hCGAMonoVideoServicesAreSupported_def
  BIOSCharacteristicsNECPC98_def

lemmas BIOSCharacteristicsExt1_bits =
  BIOSCharacteristicsExt1ACPIIsSupported_def
  BIOSCharacteristicsExt1USBLegacyIsSupported_def
  BIOSCharacteristicsExt1AGPIsSupported_def
  BIOSCharacteristicsExt1I2OBootIsSupported_def
  BIOSCharacteristicsExt1LS120SuperDiskBootIsSupported_def
  BIOSCharacteristicsExt1ATAPIZIPDriveBootIsSupported_def
  BIOSCharacteristicsExt11394BootIsSupported_def
  BIOSCharacteristicsExt1SmartBatteryIsSupported_def

lemmas BIOSCharacteristicsExt2_bits =
  BIOSCharacteristicsExt2BIOSBootSpecificationIsSupported_def
  BIOSCharacteristicsExt2FunctionKeyinitiatedNetworkServiceBootIsSupported_def
  BIOSCharacteristicsExt2TargetedContentDistributionIsSupported_def
  BIOSCharacteristicsExt2UEFISpecificationIsSupported_def
  BIOSCharacteristicsExt2SMBIOSTableDescribesAVirtualMachine_def

section \<open>Properties of the decoder\<close>

lemma example_record_simps:
  "Len (example_record n rom ext) = n"
  "ROMSize (example_record n rom ext) = rom"
  "ExtendedROMSize (example_record n rom ext) = ext"
  by (simp_all add: example_record_def BIOSInformation_of_Table_def)

lemma example_summary_simps:
  "Len (example_summary n seg major) = n"
  "ROMSize (example_summary n seg major) = 0"
  "StartingAddressSegment (example_summary n seg major) = seg"
  "SystemBIOSMajorRelease (example_summary n seg major) = major"
  "SystemBIOSMinorRelease (example_summary n seg major) = 7"
  by (simp_all add: example_summary_def example_record_def BIOSInformation_of_Table_def)

text \<open>
  C5. A table whose type tag is not the BIOS Information tag (0) is rejected with the
  invalid-table-type error, whatever its length and whatever the field reader would do;
  no record is returned.
\<close>

theorem NewBIOSInformation_wrong_type:
  "Type t \<noteq> 0 \<Longrightarrow> NewBIOSInformation parseStruct t = Inl (InvalidTableType (Type t))"
  by (simp add: NewBIOSInformation_def TableTypeBIOSInformation_def)

theorem NewBIOSInformation_wrong_type_witness:
  "Type \<lparr> Type = 17, Len = 0x1a, HeaderString = [] \<rparr> \<noteq> 0 \<and>
   NewBIOSInformation parseStruct_skip \<lparr> Type = 17, Len = 0x1a, HeaderString = [] \<rparr>
     = Inl (InvalidTableType 17)"
  using NewBIOSInformation_wrong_type
    [of "\<lparr> Type = 17, Len = 0x1a, HeaderString = [] \<rparr>" parseStruct_skip]
  by simp

text \<open>
  C4, as the code has it. The type tag is checked before the length, so the
  required-fields-missing error is what a table of the right type with a length below
  0x12 gets; no record is returned.
\<close>

theorem NewBIOSInformation_truncated:
  "Type t = 0 \<Longrightarrow> Len t < 0x12 \<Longrightarrow>
   NewBIOSInformation parseStruct t = Inl RequiredFieldsMissing"
  by (simp add: NewBIOSInformation_def TableTypeBIOSInformation_def)

theorem NewBIOSInformation_truncated_witness:
  "Type \<lparr> Type = 0, Len = 0x11, HeaderString = [] \<rparr> = 0 \<and>
   Len \<lparr> Type = 0, Len = 0x11, HeaderString = [] \<rparr> < 0x12 \<and>
   NewBIOSInformation parseStruct_skip \<lparr> Type = 0, Len = 0x11, HeaderString = [] \<rparr>
     = Inl RequiredFieldsMissing"
  using NewBIOSInformation_truncated
    [of "\<lparr> Type = 0, Len = 0x11, HeaderString = [] \<rparr>" parseStruct_skip]
  by simp

text \<open>
  C4 as stated fails: a table of length 4 with type tag 1 is below 0x12 bytes, and the
  decoder answers with the invalid-table-type error, not with required-fields-missing.
\<close>

theorem NewBIOSInformation_truncated_counterexample:
  "Len \<lparr> Type = 1, Len = 4, HeaderString = [] \<rparr> < 0x12 \<and>
   NewBIOSInformation parseStruct_skip \<lparr> Type = 1, Len = 4, HeaderString = [] \<rparr>
     = Inl (InvalidTableType 1) \<and>
   NewBIOSInformation parseStruct_skip \<lparr> Type = 1, Len = 4, HeaderString = [] \<rparr>
     \<noteq> Inl RequiredFieldsMissing"
  by (simp add: NewBIOSInformation_def TableTypeBIOSInformation_def)

section \<open>Properties of the ROM size\<close>

subsection \<open>Reading the words as natural numbers\<close>

lemma unat_ucast_8_64: "unat (ucast (w :: 8 word) :: 64 word) = unat w"
proof -
  have "unat w < 2 ^ 8" using unsigned_less [of w] by simp
  then have "unat w < 2 ^ 64" by simp
  then show ?thesis by (simp add: unsigned_ucast_eq take_bit_nat_eq_self)
qed


lemma unat_ucast_8_32: "unat (ucast (w :: 8 word) :: 32 word) = unat w"
proof -
  have "unat w < 2 ^ 8" using unsigned_less [of w] by simp
  then have "unat w < 2 ^ 32" by simp
  then show ?thesis by (simp add: unsigned_ucast_eq take_bit_nat_eq_self)
qed












lemma unat_GetROMSizeBytes_legacy:
  assumes "ROMSize bi \<noteq> 0xFF"
  shows "unat (GetROMSizeBytes bi :: 64 word) = 65536 * (unat (ROMSize bi) + 1)"
proof -
  have b: "unat (ROMSize bi) < 256" using unsigned_less [of "ROMSize bi"] by simp
  have "unat (65536 * (ucast (ROMSize bi) + 1) :: 64 word) = 65536 * (unat (ROMSize bi) + 1)"
    using b by (simp add: unat_word_ariths unat_ucast_8_64)
  with assms show ?thesis by (simp add: GetROMSizeBytes_def)
qed

lemma unat_GetROMSizeBytes_legacy_32:
  assumes "ROMSize bi \<noteq> 0xFF"
  shows "unat (GetROMSizeBytes bi :: 32 word) = 65536 * (unat (ROMSize bi) + 1)"
proof -
  have b: "unat (ROMSize bi) < 256" using unsigned_less [of "ROMSize bi"] by simp
  have "unat (65536 * (ucast (ROMSize bi) + 1) :: 32 word) = 65536 * (unat (ROMSize bi) + 1)"
    using b by (simp add: unat_word_ariths unat_ucast_8_32)
  with assms show ?thesis by (simp add: GetROMSizeBytes_def)
qed

lemma GetROMSizeBytes_fallback:
  assumes "ROMSize bi = 0xFF" and "Len bi < 0x1A"
  shows "(GetROMSizeBytes bi :: 64 word) = 16777216"
    and "(GetROMSizeBytes bi :: 32 word) = 16777216"
  using assms by (simp_all add: GetROMSizeBytes_def Let_def)

subsection \<open>The three encodings\<close>




text \<open>
  C2. With the sentinel 0xFF in the ROM size byte and a record shorter than 0x1A bytes,
  the extended field is not consulted: the fallback value 0x10 has unit 0 (megabytes) and
  the size is 16777216 bytes, whatever the extended ROM size field holds. This holds
  where \<^verbatim>\<open>uint\<close> has 64 bits and where it has 32.
\<close>

theorem GetROMSizeBytes_short_record:
  "ROMSize bi = 0xFF \<Longrightarrow> Len bi < 0x1A \<Longrightarrow>
   unat (GetROMSizeBytes bi :: 64 word) = 16777216 \<and>
   unat (GetROMSizeBytes bi :: 32 word) = 16777216"
  by (simp add: GetROMSizeBytes_fallback)

theorem GetROMSizeBytes_short_record_witness:
  "ROMSize (example_record 0x18 0xFF 0x4010) = 0xFF \<and>
   Len (example_record 0x18 0xFF 0x4010) < 0x1A \<and>
   unat (GetROMSizeBytes (example_record 0x18 0xFF 0x4010) :: 64 word) = 16777216 \<and>
   unat (GetROMSizeBytes (example_record 0x18 0xFF 0x4010) :: 32 word) = 16777216"
  using GetROMSizeBytes_short_record [of "example_record 0x18 0xFF 0x4010"]
  by (simp add: example_record_simps)

text \<open>
  C3. When the ROM size byte is not the sentinel 0xFF, the size is
  \<open>65536 * (ROMSize + 1)\<close> bytes as a natural number (nothing wraps), whatever the length
  of the record and its extended ROM size; ROMSize 0x00 gives 65536 and ROMSize 0x10
  gives 1114112. This holds where \<^verbatim>\<open>uint\<close> has 64 bits and where it has 32.
\<close>

theorem GetROMSizeBytes_legacy:
  "(ROMSize bi \<noteq> 0xFF \<longrightarrow>
      unat (GetROMSizeBytes bi :: 64 word) = 65536 * (unat (ROMSize bi) + 1) \<and>
      unat (GetROMSizeBytes bi :: 32 word) = 65536 * (unat (ROMSize bi) + 1))
   \<and> (ROMSize bi = 0x00 \<longrightarrow>
      unat (GetROMSizeBytes bi :: 64 word) = 65536 \<and>
      unat (GetROMSizeBytes bi :: 32 word) = 65536)
   \<and> (ROMSize bi = 0x10 \<longrightarrow>
      unat (GetROMSizeBytes bi :: 64 word) = 1114112 \<and>
      unat (GetROMSizeBytes bi :: 32 word) = 1114112)"
proof (intro conjI impI)
  assume "ROMSize bi \<noteq> 0xFF"
  then show "unat (GetROMSizeBytes bi :: 64 word) = 65536 * (unat (ROMSize bi) + 1)"
    and "unat (GetROMSizeBytes bi :: 32 word) = 65536 * (unat (ROMSize bi) + 1)"
    by (rule unat_GetROMSizeBytes_legacy unat_GetROMSizeBytes_legacy_32)+
next
  assume z: "ROMSize bi = 0x00"
  then have n: "ROMSize bi \<noteq> 0xFF" by simp
  from unat_GetROMSizeBytes_legacy [OF n] z
  show "unat (GetROMSizeBytes bi :: 64 word) = 65536" by simp
  from unat_GetROMSizeBytes_legacy_32 [OF n] z
  show "unat (GetROMSizeBytes bi :: 32 word) = 65536" by simp
next
  assume z: "ROMSize bi = 0x10"
  then have n: "ROMSize bi \<noteq> 0xFF" by simp
  from unat_GetROMSizeBytes_legacy [OF n] z
  show "unat (GetROMSizeBytes bi :: 64 word) = 1114112" by simp
  from unat_GetROMSizeBytes_legacy_32 [OF n] z
  show "unat (GetROMSizeBytes bi :: 32 word) = 1114112" by simp
qed

theorem GetROMSizeBytes_legacy_witness:
  "ROMSize (example_record 0x12 0x00 0) = 0x00 \<and>
   unat (GetROMSizeBytes (example_record 0x12 0x00 0) :: 64 word) = 65536 \<and>
   unat (GetROMSizeBytes (example_record 0x12 0x00 0) :: 32 word) = 65536 \<and>
   ROMSize (example_record 0x1A 0x10 0x4010) = 0x10 \<and>
   unat (GetROMSizeBytes (example_record 0x1A 0x10 0x4010) :: 64 word) = 1114112 \<and>
   unat (GetROMSizeBytes (example_record 0x1A 0x10 0x4010) :: 32 word) = 1114112 \<and>
   ROMSize (example_record 0x1A 0xFE 0x4010) \<noteq> 0xFF \<and>
   unat (GetROMSizeBytes (example_record 0x1A 0xFE 0x4010) :: 64 word) = 16711680 \<and>
   unat (GetROMSizeBytes (example_record 0x1A 0xFE 0x4010) :: 32 word) = 16711680"
  using GetROMSizeBytes_legacy [of "example_record 0x12 0x00 0"]
        GetROMSizeBytes_legacy [of "example_record 0x1A 0x10 0x4010"]
        GetROMSizeBytes_legacy [of "example_record 0x1A 0xFE 0x4010"]
  by (simp add: example_record_simps)

section \<open>Properties of the flag renderers\<close>

subsection \<open>Each if-chain is the table-driven renderer\<close>

lemma append_if_eq: "append_if c lines s = lines @ (if c then [s] else [])"
  by (simp add: append_if_def)

lemma filter_Cons_append: "filter P (x # xs) = (if P x then [x] else []) @ filter P xs"
  by simp

lemma map_if_single: "map f (if c then [x] else []) = (if c then [f x] else [])"
  by simp

lemma flag_test: "(v AND push_bit n 1 \<noteq> 0) = bit v n" for v :: "'a::len word"
  by (simp add: bit_iff_and_push_bit_not_eq_0)

lemma bit_case_prod: "(case (i, s) of (i, s) \<Rightarrow> bit v i) = bit v i"
  by simp

lemma BIOSCharacteristicsExt2_lines_table:
  "BIOSCharacteristicsExt2_lines v = render_flags BIOSCharacteristicsExt2_table v"
  unfolding BIOSCharacteristicsExt2_lines_def BIOSCharacteristicsExt2_table_def render_flags_def
    BIOSCharacteristicsExt2_bits Let_def
  by (simp only: append_if_eq filter_Cons_append map_if_single flag_test map_append
      append_Nil append_Nil2 append_assoc split_conv snd_conv filter.simps(1) list.map(1))

lemma BIOSCharacteristicsExt1_lines_table:
  "BIOSCharacteristicsExt1_lines v = render_flags BIOSCharacteristicsExt1_table v"
  unfolding BIOSCharacteristicsExt1_lines_def BIOSCharacteristicsExt1_table_def render_flags_def
    BIOSCharacteristicsExt1_bits Let_def
  by (simp only: append_if_eq filter_Cons_append map_if_single flag_test map_append
      append_Nil append_Nil2 append_assoc split_conv snd_conv filter.simps(1) list.map(1))

lemma BIOSCharacteristics_lines_table:
  "BIOSCharacteristics_lines v = render_flags BIOSCharacteristics_table v"
  unfolding BIOSCharacteristics_lines_def BIOSCharacteristics_table_def render_flags_def
    BIOSCharacteristics_bits Let_def
  by (simp only: append_if_eq filter_Cons_append map_if_single flag_test map_append
      append_Nil append_Nil2 append_assoc split_conv snd_conv filter.simps(1) list.map(1))

lemma table_positions:
  "map fst BIOSCharacteristics_table = [0..<32]"
  "map fst BIOSCharacteristicsExt1_table = [0..<8]"
  "map fst BIOSCharacteristicsExt2_table = [0..<5]"
  by (simp_all add: BIOSCharacteristics_table_def BIOSCharacteristicsExt1_table_def
      BIOSCharacteristicsExt2_table_def upt_rec)

lemma render_flags_mask:
  fixes v :: "'a::len word"
  assumes "\<And>i s. (i, s) \<in> set table \<Longrightarrow> i < n"
  shows "render_flags table (v AND mask n) = render_flags table v"
proof -
  have "filter (\<lambda>(i, s). bit (v AND mask n) i) table = filter (\<lambda>(i, s). bit v i) table"
    using assms by (intro filter_cong refl) (auto simp add: bit_and_iff bit_mask_iff dest: bit_imp_le_length)
  then show ?thesis by (simp add: render_flags_def)
qed

lemma render_flags_zero: "render_flags table (0 :: 'a::len word) = []"
  by (simp add: render_flags_def case_prod_unfold)

lemma table_bound:
  "(i, s) \<in> set BIOSCharacteristics_table \<Longrightarrow> i < 32"
  "(i, s) \<in> set BIOSCharacteristicsExt1_table \<Longrightarrow> i < 8"
  "(i, s) \<in> set BIOSCharacteristicsExt2_table \<Longrightarrow> i < 5"
proof -
  have "i \<in> set (map fst BIOSCharacteristics_table)" if "(i, s) \<in> set BIOSCharacteristics_table"
    using that by force
  then show "(i, s) \<in> set BIOSCharacteristics_table \<Longrightarrow> i < 32"
    by (simp only: table_positions) simp
  have "i \<in> set (map fst BIOSCharacteristicsExt1_table)" if "(i, s) \<in> set BIOSCharacteristicsExt1_table"
    using that by force
  then show "(i, s) \<in> set BIOSCharacteristicsExt1_table \<Longrightarrow> i < 8"
    by (simp only: table_positions) simp
  have "i \<in> set (map fst BIOSCharacteristicsExt2_table)" if "(i, s) \<in> set BIOSCharacteristicsExt2_table"
    using that by force
  then show "(i, s) \<in> set BIOSCharacteristicsExt2_table \<Longrightarrow> i < 5"
    by (simp only: table_positions) simp
qed

lemma mask32: "(0xFFFFFFFF :: 64 word) = mask 32"
  by (simp add: mask_eq_exp_minus_1)

lemma mask5: "(0x1F :: 8 word) = mask 5"
  by (simp add: mask_eq_exp_minus_1)

lemma BIOSCharacteristics_lines_mask:
  "BIOSCharacteristics_lines (v AND 0xFFFFFFFF) = BIOSCharacteristics_lines v"
  unfolding mask32 BIOSCharacteristics_lines_table
  by (rule render_flags_mask) (rule table_bound)

lemma BIOSCharacteristicsExt2_lines_mask:
  "BIOSCharacteristicsExt2_lines (v AND 0x1F) = BIOSCharacteristicsExt2_lines v"
  unfolding mask5 BIOSCharacteristicsExt2_lines_table
  by (rule render_flags_mask) (rule table_bound)

subsection \<open>Order of the descriptions\<close>

lemma flag_String_table:
  "BIOSCharacteristics_String v =
     strings_Join (render_flags BIOSCharacteristics_table v) ''\<newline>''"
  "BIOSCharacteristicsExt1_String v1 =
     strings_Join (render_flags BIOSCharacteristicsExt1_table v1) ''\<newline>''"
  "BIOSCharacteristicsExt2_String v2 =
     strings_Join (render_flags BIOSCharacteristicsExt2_table v2) ''\<newline>''"
  by (simp_all only: BIOSCharacteristics_String_def BIOSCharacteristicsExt1_String_def
      BIOSCharacteristicsExt2_String_def BIOSCharacteristics_lines_table
      BIOSCharacteristicsExt1_lines_table BIOSCharacteristicsExt2_lines_table)

text \<open>
  C6. The text each of the three \<^verbatim>\<open>String\<close> methods returns is, for every vector, the
  descriptions of the table entries whose bit is set, in the order of its table, joined
  by newlines; the list the method collects is that list of descriptions. Each table
  lists its bit positions in ascending order from bit 0 (0 to 31, 0 to 7, 0 to 4). The
  result is a function of the vector alone. A characteristics vector with exactly bits 4
  and 7 set yields the ISA description followed by the PCI description, and nothing else.
\<close>

theorem flag_renderers_in_bit_order:
  \<open>BIOSCharacteristics_String v =
     strings_Join (render_flags BIOSCharacteristics_table v) ''\<newline>''
   \<and> BIOSCharacteristics_lines v = render_flags BIOSCharacteristics_table v
   \<and> map fst BIOSCharacteristics_table = [0..<32]
   \<and> BIOSCharacteristicsExt1_String v1 =
     strings_Join (render_flags BIOSCharacteristicsExt1_table v1) ''\<newline>''
   \<and> BIOSCharacteristicsExt1_lines v1 = render_flags BIOSCharacteristicsExt1_table v1
   \<and> map fst BIOSCharacteristicsExt1_table = [0..<8]
   \<and> BIOSCharacteristicsExt2_String v2 =
     strings_Join (render_flags BIOSCharacteristicsExt2_table v2) ''\<newline>''
   \<and> BIOSCharacteristicsExt2_lines v2 = render_flags BIOSCharacteristicsExt2_table v2
   \<and> map fst BIOSCharacteristicsExt2_table = [0..<5]
   \<and> BIOSCharacteristics_lines (push_bit 4 1 OR push_bit 7 1) =
         [TAB # TAB # ''ISA is supported'', TAB # TAB # ''PCI is supported'']
   \<and> BIOSCharacteristics_String (push_bit 4 1 OR push_bit 7 1) =
         TAB # TAB # ''ISA is supported'' @ ''\<newline>'' @ TAB # TAB # ''PCI is supported''\<close>
proof -
  have l: "BIOSCharacteristics_lines (push_bit 4 1 OR push_bit 7 1) =
      [TAB # TAB # ''ISA is supported'', TAB # TAB # ''PCI is supported'']"
    unfolding BIOSCharacteristics_lines_table
    by (simp add: render_flags_def BIOSCharacteristics_table_def)
  have s: "BIOSCharacteristics_String (push_bit 4 1 OR push_bit 7 1) =
      TAB # TAB # ''ISA is supported'' @ ''\<newline>'' @ TAB # TAB # ''PCI is supported''"
    unfolding BIOSCharacteristics_String_def l by simp
  from l s show ?thesis
    by (simp only: flag_String_table BIOSCharacteristics_lines_table
        BIOSCharacteristicsExt1_lines_table BIOSCharacteristicsExt2_lines_table
        table_positions simp_thms)
qed

theorem flag_renderers_in_bit_order_witness:
  \<open>BIOSCharacteristics_String 0x8000000000000090 =
     TAB # TAB # ''ISA is supported'' @ ''\<newline>'' @ TAB # TAB # ''PCI is supported''
   \<and> BIOSCharacteristicsExt1_String 0x81 =
     TAB # TAB # ''ACPI is supported'' @ ''\<newline>'' @ TAB # TAB # ''Smart battery is supported''
   \<and> BIOSCharacteristicsExt2_String 0x18 =
     TAB # TAB # ''UEFI is supported'' @ ''\<newline>'' @ TAB # TAB # ''System is a virtual machine''
   \<and> BIOSCharacteristics_lines 0x8000000000000090 =
     [TAB # TAB # ''ISA is supported'', TAB # TAB # ''PCI is supported'']
   \<and> BIOSCharacteristicsExt1_lines 0x81 =
     [TAB # TAB # ''ACPI is supported'', TAB # TAB # ''Smart battery is supported'']
   \<and> BIOSCharacteristicsExt2_lines 0x18 =
     [TAB # TAB # ''UEFI is supported'', TAB # TAB # ''System is a virtual machine'']\<close>
  using flag_renderers_in_bit_order [of "0x8000000000000090" "0x81" "0x18"]
  by (simp add: render_flags_def BIOSCharacteristics_table_def
      BIOSCharacteristicsExt1_table_def BIOSCharacteristicsExt2_table_def)

subsection \<open>Vectors without a defined bit\<close>

text \<open>
  C7. A characteristics vector with none of its bits 0 to 31 set, an extension-1 vector
  equal to zero (all of its eight bits are defined) and an extension-2 vector with none
  of its bits 0 to 4 set each render to the empty list and the empty text. Bits outside
  the tables never contribute: masking them away does not change the result.
\<close>

theorem flag_renderers_no_defined_bit:
  "(v AND 0xFFFFFFFF = 0 \<longrightarrow>
      BIOSCharacteristics_lines v = [] \<and> BIOSCharacteristics_String v = [])
   \<and> (v1 = 0 \<longrightarrow>
      BIOSCharacteristicsExt1_lines v1 = [] \<and> BIOSCharacteristicsExt1_String v1 = [])
   \<and> (v2 AND 0x1F = 0 \<longrightarrow>
      BIOSCharacteristicsExt2_lines v2 = [] \<and> BIOSCharacteristicsExt2_String v2 = [])
   \<and> BIOSCharacteristics_lines v = BIOSCharacteristics_lines (v AND 0xFFFFFFFF)
   \<and> BIOSCharacteristicsExt2_lines v2 = BIOSCharacteristicsExt2_lines (v2 AND 0x1F)"
proof -
  have a: "BIOSCharacteristics_lines v = []" if "v AND 0xFFFFFFFF = 0"
    using BIOSCharacteristics_lines_mask [of v] that
    by (simp add: BIOSCharacteristics_lines_table render_flags_zero)
  have b: "BIOSCharacteristicsExt1_lines v1 = []" if "v1 = 0"
    using that by (simp add: BIOSCharacteristicsExt1_lines_table render_flags_zero)
  have c: "BIOSCharacteristicsExt2_lines v2 = []" if "v2 AND 0x1F = 0"
    using BIOSCharacteristicsExt2_lines_mask [of v2] that
    by (simp add: BIOSCharacteristicsExt2_lines_table render_flags_zero)
  show ?thesis
    using a b c
    by (simp add: BIOSCharacteristics_String_def BIOSCharacteristicsExt1_String_def
        BIOSCharacteristicsExt2_String_def BIOSCharacteristics_lines_mask
        BIOSCharacteristicsExt2_lines_mask)
qed

theorem flag_renderers_no_defined_bit_witness:
  "(0xFFFFFFFF00000000 :: 64 word) AND 0xFFFFFFFF = 0
   \<and> BIOSCharacteristics_lines 0xFFFFFFFF00000000 = []
   \<and> BIOSCharacteristics_String 0xFFFFFFFF00000000 = []
   \<and> BIOSCharacteristicsExt1_lines 0 = []
   \<and> (0xE0 :: 8 word) AND 0x1F = 0
   \<and> BIOSCharacteristicsExt2_lines 0xE0 = []
   \<and> BIOSCharacteristicsExt2_String 0xE0 = []"
  using flag_renderers_no_defined_bit [of "0xFFFFFFFF00000000" 0 "0xE0"]
  by simp

section \<open>Properties of the summary\<close>

subsection \<open>The lines of the summary\<close>

lemma BIOSInformation_lines_shape:
  \<open>BIOSInformation_lines TYPE('u::len) bi =
     [HeaderString bi,
      TAB # ''Vendor: '' @ Vendor bi,
      TAB # ''Version: '' @ Version bi,
      TAB # ''Release Date: '' @ ReleaseDate bi]
     @ (if StartingAddressSegment bi \<noteq> 0
        then [TAB # ''Address: 0x'' @ fmt_04X (unat (StartingAddressSegment bi)) @ ''0'',
              TAB # ''Runtime Size: '' @
                fmt_d_int (push_bit 4 (0x10000 - uint (StartingAddressSegment bi)) div 1024)
                @ '' kB'']
        else [])
     @ [TAB # ''ROM Size: '' @
          (if (GetROMSizeBytes bi :: 'u word) < 1024
             then fmt_d (unat (GetROMSizeBytes bi :: 'u word))
           else if (GetROMSizeBytes bi :: 'u word) < 1024 * 1024
             then fmt_d (unat ((GetROMSizeBytes bi :: 'u word) div 1024)) @ '' kB''
           else if (GetROMSizeBytes bi :: 'u word) < 1024 * 1024 * 1024
             then fmt_d (unat ((GetROMSizeBytes bi :: 'u word) div 1024 div 1024)) @ '' MB''
           else fmt_d (unat ((GetROMSizeBytes bi :: 'u word) div 1024 div 1024 div 1024))
                  @ '' GB'')]
     @ [TAB # ''Characteristics:\<newline>'' @ BIOSCharacteristics_String (Characteristics bi),
        BIOSCharacteristicsExt1_String (CharacteristicsExt1 bi),
        BIOSCharacteristicsExt2_String (CharacteristicsExt2 bi)]
     @ (if Len bi \<ge> 0x16 \<and> SystemBIOSMajorRelease bi \<noteq> 0xff
        then [TAB # ''BIOS Revision: '' @ fmt_d (unat (SystemBIOSMajorRelease bi)) @ ''.''
                @ fmt_d (unat (SystemBIOSMinorRelease bi))]
        else [])
     @ (if Len bi \<ge> 0x18 \<and> EmbeddedControllerFirmwareMajorRelease bi \<noteq> 0xff
        then [TAB # ''Firmware Revision: ''
                @ fmt_d (unat (EmbeddedControllerFirmwareMajorRelease bi)) @ ''.''
                @ fmt_d (unat (EmbeddedControllerFirmwareMinorRelease bi))]
        else [])\<close>
  unfolding BIOSInformation_lines_def Let_def by simp

lemma strings_Join_head:
  assumes "\<And>l. l \<in> set ls \<Longrightarrow> \<exists>r. l = a # b # r"
  shows "strings_Join ls sep = [] \<or> (\<exists>r. strings_Join ls sep = a # b # r)"
proof (cases ls)
  case Nil
  then show ?thesis by simp
next
  case (Cons x xs)
  then obtain r where x: "x = a # b # r" using assms by auto
  show ?thesis
  proof (cases xs)
    case Nil
    with Cons x show ?thesis by simp
  next
    case (Cons y ys)
    with \<open>ls = x # xs\<close> x show ?thesis by simp
  qed
qed

lemma table_texts:
  "(i, s) \<in> set BIOSCharacteristics_table \<Longrightarrow> \<exists>r. s = TAB # TAB # r"
  "(i, s) \<in> set BIOSCharacteristicsExt1_table \<Longrightarrow> \<exists>r. s = TAB # TAB # r"
  "(i, s) \<in> set BIOSCharacteristicsExt2_table \<Longrightarrow> \<exists>r. s = TAB # TAB # r"
  by (auto simp add: BIOSCharacteristics_table_def BIOSCharacteristicsExt1_table_def
      BIOSCharacteristicsExt2_table_def)

lemma render_flags_texts:
  assumes "\<And>i s. (i, s) \<in> set table \<Longrightarrow> \<exists>r. s = TAB # TAB # r"
    and "l \<in> set (render_flags table v)"
  shows "\<exists>r. l = TAB # TAB # r"
  using assms by (auto simp add: render_flags_def)

lemma flag_String_head:
  "BIOSCharacteristicsExt1_String v1 = [] \<or> (\<exists>r. BIOSCharacteristicsExt1_String v1 = TAB # TAB # r)"
  "BIOSCharacteristicsExt2_String v2 = [] \<or> (\<exists>r. BIOSCharacteristicsExt2_String v2 = TAB # TAB # r)"
  unfolding BIOSCharacteristicsExt1_String_def BIOSCharacteristicsExt2_String_def
    BIOSCharacteristicsExt1_lines_table BIOSCharacteristicsExt2_lines_table
  by (rule strings_Join_head, erule render_flags_texts [rotated], erule table_texts)+

lemma not_prefix_flag_String:
  assumes "c \<noteq> TAB"
  shows "\<not> prefix (TAB # c # p) (BIOSCharacteristicsExt1_String v1)"
    and "\<not> prefix (TAB # c # p) (BIOSCharacteristicsExt2_String v2)"
  using assms flag_String_head(1) [of v1] flag_String_head(2) [of v2] by auto

lemma take_bit_numeral_small:
  assumes "32 \<le> LENGTH('u::len)" and "numeral k < (2::nat) ^ 32"
  shows "take_bit LENGTH('u) (numeral k :: nat) = numeral k"
proof -
  have "(2::nat) ^ 32 \<le> 2 ^ LENGTH('u)"
    using assms(1) by (intro power_increasing) simp_all
  with assms(2) have "(numeral k :: nat) < 2 ^ LENGTH('u)" by linarith
  then show ?thesis by (simp only: take_bit_nat_eq_self)
qed

lemma rom_thresholds:
  fixes bs :: "'u::len word"
  assumes "32 \<le> LENGTH('u)"
  shows "(bs < 1024) = (unat bs < 1024)"
    and "(bs < 1024 * 1024) = (unat bs < 1048576)"
    and "(bs < 1024 * 1024 * 1024) = (unat bs < 1073741824)"
  by (simp_all add: word_less_nat_alt take_bit_numeral_small [OF assms])

lemma nat_div_units:
  fixes n :: nat
  shows "n div 1024 div 1024 = n div 1048576"
    and "n div 1048576 div 1024 = n div 1073741824"
proof -
  have "n div 1024 div 1024 = n div (1024 * 1024)"
    by (rule div_mult2_eq [symmetric])
  then show "n div 1024 div 1024 = n div 1048576" by simp
  have "n div 1048576 div 1024 = n div (1048576 * 1024)"
    by (rule div_mult2_eq [symmetric])
  then show "n div 1048576 div 1024 = n div 1073741824" by simp
qed

lemma rom_scaled:
  fixes bs :: "'u::len word"
  assumes "32 \<le> LENGTH('u)"
  shows "unat (bs div 1024) = unat bs div 1024"
    and "unat (bs div 1024 div 1024) = unat bs div 1048576"
    and "unat (bs div 1024 div 1024 div 1024) = unat bs div 1073741824"
  by (simp_all add: unat_div take_bit_numeral_small [OF assms] nat_div_units)

lemma fmt_d_int_nat: "fmt_d_int (int n) = fmt_d n"
  by (simp add: fmt_d_int_def)

lemma runtime_size:
  fixes seg :: "16 word"
  shows "push_bit 4 (0x10000 - uint seg) div 1024 = int ((65536 - unat seg) * 16 div 1024)"
proof -
  have "unat seg < 2 ^ 16" using unsigned_less [of seg] by simp
  then have "unat seg < 65536" by simp
  then have "(0x10000 :: int) - uint seg = int (65536 - unat seg)"
    by (simp add: of_nat_diff)
  then show ?thesis
    by (simp only: push_bit_eq_mult) (simp add: zdiv_int)
qed

lemma tl_lines:
  \<open>tl (BIOSInformation_lines TYPE('u::len) bi) =
     [TAB # ''Vendor: '' @ Vendor bi,
      TAB # ''Version: '' @ Version bi,
      TAB # ''Release Date: '' @ ReleaseDate bi]
     @ (if StartingAddressSegment bi \<noteq> 0
        then [TAB # ''Address: 0x'' @ fmt_04X (unat (StartingAddressSegment bi)) @ ''0'',
              TAB # ''Runtime Size: '' @
                fmt_d ((65536 - unat (StartingAddressSegment bi)) * 16 div 1024)
                @ '' kB'']
        else [])
     @ [TAB # ''ROM Size: '' @
          (if (GetROMSizeBytes bi :: 'u word) < 1024
             then fmt_d (unat (GetROMSizeBytes bi :: 'u word))
           else if (GetROMSizeBytes bi :: 'u word) < 1024 * 1024
             then fmt_d (unat ((GetROMSizeBytes bi :: 'u word) div 1024)) @ '' kB''
           else if (GetROMSizeBytes bi :: 'u word) < 1024 * 1024 * 1024
             then fmt_d (unat ((GetROMSizeBytes bi :: 'u word) div 1024 div 1024)) @ '' MB''
           else fmt_d (unat ((GetROMSizeBytes bi :: 'u word) div 1024 div 1024 div 1024))
                  @ '' GB'')]
     @ [TAB # ''Characteristics:\<newline>'' @ BIOSCharacteristics_String (Characteristics bi),
        BIOSCharacteristicsExt1_String (CharacteristicsExt1 bi),
        BIOSCharacteristicsExt2_String (CharacteristicsExt2 bi)]
     @ (if Len bi \<ge> 0x16 \<and> SystemBIOSMajorRelease bi \<noteq> 0xff
        then [TAB # ''BIOS Revision: '' @ fmt_d (unat (SystemBIOSMajorRelease bi)) @ ''.''
                @ fmt_d (unat (SystemBIOSMinorRelease bi))]
        else [])
     @ (if Len bi \<ge> 0x18 \<and> EmbeddedControllerFirmwareMajorRelease bi \<noteq> 0xff
        then [TAB # ''Firmware Revision: ''
                @ fmt_d (unat (EmbeddedControllerFirmwareMajorRelease bi)) @ ''.''
                @ fmt_d (unat (EmbeddedControllerFirmwareMinorRelease bi))]
        else [])\<close>
  unfolding BIOSInformation_lines_shape runtime_size fmt_d_int_nat by simp

lemma ROM_text:
  assumes "32 \<le> LENGTH('u::len)"
  shows \<open>(if (GetROMSizeBytes bi :: 'u word) < 1024
             then fmt_d (unat (GetROMSizeBytes bi :: 'u word))
           else if (GetROMSizeBytes bi :: 'u word) < 1024 * 1024
             then fmt_d (unat ((GetROMSizeBytes bi :: 'u word) div 1024)) @ '' kB''
           else if (GetROMSizeBytes bi :: 'u word) < 1024 * 1024 * 1024
             then fmt_d (unat ((GetROMSizeBytes bi :: 'u word) div 1024 div 1024)) @ '' MB''
           else fmt_d (unat ((GetROMSizeBytes bi :: 'u word) div 1024 div 1024 div 1024))
                  @ '' GB'') =
         (if unat (GetROMSizeBytes bi :: 'u word) < 1024
             then fmt_d (unat (GetROMSizeBytes bi :: 'u word))
           else if unat (GetROMSizeBytes bi :: 'u word) < 1048576
             then fmt_d (unat (GetROMSizeBytes bi :: 'u word) div 1024) @ '' kB''
           else if unat (GetROMSizeBytes bi :: 'u word) < 1073741824
             then fmt_d (unat (GetROMSizeBytes bi :: 'u word) div 1048576) @ '' MB''
           else fmt_d (unat (GetROMSizeBytes bi :: 'u word) div 1073741824) @ '' GB'')\<close>
  unfolding rom_thresholds [OF assms] rom_scaled [OF assms] by (simp add: nat_div_units)

lemma BIOSInformation_String_lines:
  "BIOSInformation_String TYPE('u::len) bi =
     strings_Join (HeaderString bi # tl (BIOSInformation_lines TYPE('u) bi)) ''\<newline>''"
proof -
  have "BIOSInformation_lines TYPE('u) bi = HeaderString bi # tl (BIOSInformation_lines TYPE('u) bi)"
    unfolding BIOSInformation_lines_shape by simp
  then show ?thesis
    unfolding BIOSInformation_String_def by simp
qed

lemma filter_BIOS_revision:
  \<open>filter (prefix (TAB # ''BIOS Revision: '')) (tl (BIOSInformation_lines TYPE('u::len) bi)) =
     (if 0x16 \<le> Len bi \<and> SystemBIOSMajorRelease bi \<noteq> 0xFF
      then [TAB # ''BIOS Revision: '' @ fmt_d (unat (SystemBIOSMajorRelease bi)) @ ''.''
              @ fmt_d (unat (SystemBIOSMinorRelease bi))]
      else [])\<close>
  unfolding tl_lines by (simp add: not_prefix_flag_String)

lemma filter_Address:
  \<open>filter (prefix (TAB # ''Address: '')) (tl (BIOSInformation_lines TYPE('u::len) bi)) =
     (if StartingAddressSegment bi \<noteq> 0
      then [TAB # ''Address: 0x'' @ fmt_04X (unat (StartingAddressSegment bi)) @ ''0'']
      else [])\<close>
  unfolding tl_lines by (simp add: not_prefix_flag_String)

lemma filter_Runtime_Size:
  \<open>filter (prefix (TAB # ''Runtime Size: '')) (tl (BIOSInformation_lines TYPE('u::len) bi)) =
     (if StartingAddressSegment bi \<noteq> 0
      then [TAB # ''Runtime Size: '' @
              fmt_d ((65536 - unat (StartingAddressSegment bi)) * 16 div 1024) @ '' kB'']
      else [])\<close>
  unfolding tl_lines by (simp add: not_prefix_flag_String)

lemma filter_ROM_Size:
  assumes "32 \<le> LENGTH('u::len)"
  shows \<open>filter (prefix (TAB # ''ROM Size: '')) (tl (BIOSInformation_lines TYPE('u) bi)) =
     [TAB # ''ROM Size: '' @
          (if unat (GetROMSizeBytes bi :: 'u word) < 1024
             then fmt_d (unat (GetROMSizeBytes bi :: 'u word))
           else if unat (GetROMSizeBytes bi :: 'u word) < 1048576
             then fmt_d (unat (GetROMSizeBytes bi :: 'u word) div 1024) @ '' kB''
           else if unat (GetROMSizeBytes bi :: 'u word) < 1073741824
             then fmt_d (unat (GetROMSizeBytes bi :: 'u word) div 1048576) @ '' MB''
           else fmt_d (unat (GetROMSizeBytes bi :: 'u word) div 1073741824) @ '' GB'')]\<close>
  unfolding tl_lines ROM_text [OF assms, symmetric] by (simp add: not_prefix_flag_String)

lemma flag_String_zero:
  "BIOSCharacteristics_String 0 = []"
  "BIOSCharacteristicsExt1_String 0 = []"
  "BIOSCharacteristicsExt2_String 0 = []"
  by (simp_all add: flag_String_table render_flags_zero)

lemma example_fields:
  "Vendor (example_summary n seg major) = []"
  "Version (example_summary n seg major) = []"
  "ReleaseDate (example_summary n seg major) = []"
  "HeaderString (example_summary n seg major) = []"
  "Characteristics (example_summary n seg major) = 0"
  "CharacteristicsExt1 (example_summary n seg major) = 0"
  "CharacteristicsExt2 (example_summary n seg major) = 0"
  "EmbeddedControllerFirmwareMajorRelease (example_summary n seg major) = 0"
  "EmbeddedControllerFirmwareMinorRelease (example_summary n seg major) = 0"
  "Vendor (example_record n rom ext) = []"
  "Version (example_record n rom ext) = []"
  "ReleaseDate (example_record n rom ext) = []"
  "HeaderString (example_record n rom ext) = []"
  "StartingAddressSegment (example_record n rom ext) = 0"
  "Characteristics (example_record n rom ext) = 0"
  "CharacteristicsExt1 (example_record n rom ext) = 0"
  "CharacteristicsExt2 (example_record n rom ext) = 0"
  "SystemBIOSMajorRelease (example_record n rom ext) = 0"
  "SystemBIOSMinorRelease (example_record n rom ext) = 0"
  "EmbeddedControllerFirmwareMajorRelease (example_record n rom ext) = 0"
  "EmbeddedControllerFirmwareMinorRelease (example_record n rom ext) = 0"
  by (simp_all add: example_summary_def example_record_def BIOSInformation_of_Table_def)

subsection \<open>Conditional lines\<close>

text \<open>
  The text \<^verbatim>\<open>String\<close> returns is the header's own text, which this file does not
  produce, and the lines the method appends after it, joined by newlines. The statements
  below give the returned text in that form and say which lines follow the header. A
  line is recognised by its label.
\<close>

text \<open>
  C8. The summary returned is the header followed by the appended lines, joined by
  newlines. Among the appended lines there is a line labelled BIOS Revision exactly when
  the record is at least 0x16 bytes long and the system BIOS major release is not 0xFF;
  then it is the only such line and shows major and minor release in decimal. So a record
  of length 0x15 has no such line, whatever its major and minor release fields hold, and
  neither has a longer record whose major release is 0xFF. This holds at every width of
  \<^verbatim>\<open>uint\<close>.
\<close>

theorem BIOS_revision_line:
  \<open>BIOSInformation_String TYPE('u::len) bi =
     strings_Join (HeaderString bi # tl (BIOSInformation_lines TYPE('u) bi)) ''\<newline>''
   \<and> ((\<exists>l \<in> set (tl (BIOSInformation_lines TYPE('u) bi)).
          prefix (TAB # ''BIOS Revision: '') l)
      = (0x16 \<le> Len bi \<and> SystemBIOSMajorRelease bi \<noteq> 0xFF))
   \<and> filter (prefix (TAB # ''BIOS Revision: '')) (tl (BIOSInformation_lines TYPE('u) bi)) =
       (if 0x16 \<le> Len bi \<and> SystemBIOSMajorRelease bi \<noteq> 0xFF
        then [TAB # ''BIOS Revision: '' @ fmt_d (unat (SystemBIOSMajorRelease bi)) @ ''.''
                @ fmt_d (unat (SystemBIOSMinorRelease bi))]
        else [])\<close>
proof -
  have "(\<exists>l \<in> set (tl (BIOSInformation_lines TYPE('u) bi)).
          prefix (TAB # ''BIOS Revision: '') l)
      = (filter (prefix (TAB # ''BIOS Revision: ''))
          (tl (BIOSInformation_lines TYPE('u) bi)) \<noteq> [])"
    by (simp only: filter_empty_conv) blast
  then show ?thesis
    by (simp only: filter_BIOS_revision BIOSInformation_String_lines [symmetric]) simp
qed

theorem BIOS_revision_line_witness:
  \<open>BIOSInformation_String TYPE(64) (example_summary 0x16 0 3) =
     strings_Join
       [[], TAB # ''Vendor: '', TAB # ''Version: '', TAB # ''Release Date: '',
        TAB # ''ROM Size: 64 kB'', TAB # ''Characteristics:\<newline>'', [], [],
        TAB # ''BIOS Revision: 3.7'']
       ''\<newline>''
   \<and> BIOSInformation_String TYPE(64) (example_summary 0x15 0 3) =
     strings_Join
       [[], TAB # ''Vendor: '', TAB # ''Version: '', TAB # ''Release Date: '',
        TAB # ''ROM Size: 64 kB'', TAB # ''Characteristics:\<newline>'', [], []]
       ''\<newline>''
   \<and> BIOSInformation_String TYPE(32) (example_summary 0x1A 0 0xFF) =
     strings_Join
       [[], TAB # ''Vendor: '', TAB # ''Version: '', TAB # ''Release Date: '',
        TAB # ''ROM Size: 64 kB'', TAB # ''Characteristics:\<newline>'', [], [],
        TAB # ''Firmware Revision: 0.0'']
       ''\<newline>''
   \<and> filter (prefix (TAB # ''BIOS Revision: ''))
      (tl (BIOSInformation_lines TYPE(64) (example_summary 0x16 0 3))) =
        [TAB # ''BIOS Revision: 3.7'']
   \<and> filter (prefix (TAB # ''BIOS Revision: ''))
      (tl (BIOSInformation_lines TYPE(64) (example_summary 0x15 0 3))) = []
   \<and> filter (prefix (TAB # ''BIOS Revision: ''))
      (tl (BIOSInformation_lines TYPE(32) (example_summary 0x1A 0 0xFF))) = []\<close>
  using BIOS_revision_line [where 'u = 64, of "example_summary 0x16 0 3"]
    BIOS_revision_line [where 'u = 64, of "example_summary 0x15 0 3"]
    BIOS_revision_line [where 'u = 32, of "example_summary 0x1A 0 0xFF"]
  by (simp add: tl_lines example_summary_simps example_fields flag_String_zero
      GetROMSizeBytes_def fmt_d.simps)

text \<open>
  C9. The summary returned is the header followed by the appended lines, joined by
  newlines. Among the appended lines there is a line labelled Address, and likewise a
  line labelled Runtime Size, exactly when the starting address segment is not zero. The
  runtime size shown is \<open>((65536 - segment) * 16) div 1024\<close>, the value of
  \<^verbatim>\<open>((0x10000 - segment) << 4) / 1024\<close>, followed by the unit kB. This holds at every
  width of \<^verbatim>\<open>uint\<close>.
\<close>

theorem starting_address_lines:
  \<open>BIOSInformation_String TYPE('u::len) bi =
     strings_Join (HeaderString bi # tl (BIOSInformation_lines TYPE('u) bi)) ''\<newline>''
   \<and> ((\<exists>l \<in> set (tl (BIOSInformation_lines TYPE('u) bi)). prefix (TAB # ''Address: '') l)
      = (StartingAddressSegment bi \<noteq> 0))
   \<and> ((\<exists>l \<in> set (tl (BIOSInformation_lines TYPE('u) bi)).
          prefix (TAB # ''Runtime Size: '') l)
      = (StartingAddressSegment bi \<noteq> 0))
   \<and> (StartingAddressSegment bi \<noteq> 0 \<longrightarrow>
        filter (prefix (TAB # ''Address: '')) (tl (BIOSInformation_lines TYPE('u) bi)) =
          [TAB # ''Address: 0x'' @ fmt_04X (unat (StartingAddressSegment bi)) @ ''0'']
        \<and> filter (prefix (TAB # ''Runtime Size: ''))
            (tl (BIOSInformation_lines TYPE('u) bi)) =
          [TAB # ''Runtime Size: '' @
             fmt_d ((65536 - unat (StartingAddressSegment bi)) * 16 div 1024) @ '' kB''])\<close>
proof -
  have "(\<exists>l \<in> set (tl (BIOSInformation_lines TYPE('u) bi)). prefix p l)
      = (filter (prefix p) (tl (BIOSInformation_lines TYPE('u) bi)) \<noteq> [])" for p
    by (simp only: filter_empty_conv) blast
  then show ?thesis
    by (simp only: filter_Address filter_Runtime_Size BIOSInformation_String_lines [symmetric])
       simp
qed

theorem starting_address_lines_witness:
  \<open>StartingAddressSegment (example_summary 0x12 0xE800 0) \<noteq> 0
   \<and> BIOSInformation_String TYPE(64) (example_summary 0x12 0xE800 0) =
     strings_Join
       [[], TAB # ''Vendor: '', TAB # ''Version: '', TAB # ''Release Date: '',
        TAB # ''Address: 0xE8000'', TAB # ''Runtime Size: 96 kB'',
        TAB # ''ROM Size: 64 kB'', TAB # ''Characteristics:\<newline>'', [], []]
       ''\<newline>''
   \<and> BIOSInformation_String TYPE(32) (example_summary 0x12 0 0) =
     strings_Join
       [[], TAB # ''Vendor: '', TAB # ''Version: '', TAB # ''Release Date: '',
        TAB # ''ROM Size: 64 kB'', TAB # ''Characteristics:\<newline>'', [], []]
       ''\<newline>''
   \<and> filter (prefix (TAB # ''Address: ''))
        (tl (BIOSInformation_lines TYPE(64) (example_summary 0x12 0xE800 0))) =
          [TAB # ''Address: 0xE8000'']
   \<and> filter (prefix (TAB # ''Runtime Size: ''))
        (tl (BIOSInformation_lines TYPE(64) (example_summary 0x12 0xE800 0))) =
          [TAB # ''Runtime Size: 96 kB'']
   \<and> \<not> (\<exists>l \<in> set (tl (BIOSInformation_lines TYPE(32) (example_summary 0x12 0 0))).
          prefix (TAB # ''Address: '') l)
   \<and> \<not> (\<exists>l \<in> set (tl (BIOSInformation_lines TYPE(32) (example_summary 0x12 0 0))).
          prefix (TAB # ''Runtime Size: '') l)\<close>
  using starting_address_lines [where 'u = 64, of "example_summary 0x12 0xE800 0"]
    starting_address_lines [where 'u = 32, of "example_summary 0x12 0 0"]
  by (simp add: tl_lines example_summary_simps example_fields flag_String_zero
      GetROMSizeBytes_def fmt_d.simps fmt_X.simps fmt_04X_def)

text \<open>
  C10. Where \<^verbatim>\<open>uint\<close> has at least 32 bits: the summary returned is the header
  followed by the appended lines, joined by newlines, and exactly one appended line is
  labelled ROM Size. With \<open>bs\<close> the byte count of \<open>GetROMSizeBytes\<close>, it shows \<open>bs\<close> itself
  below 1024, \<open>bs div 1024\<close> with kB below \<open>1024^2\<close>, \<open>bs div 1024^2\<close> with MB below
  \<open>1024^3\<close> and \<open>bs div 1024^3\<close> with GB from there on. The unit chosen is the largest of
  the four whose value is at least 1: every larger unit would show 0, and the value shown
  is at least 1 unless the byte count itself is 0, which is shown as 0 bytes.
\<close>

theorem ROM_size_line:
  fixes bi :: BIOSInformation
  assumes "32 \<le> LENGTH('u::len)"
  defines "bs \<equiv> unat (GetROMSizeBytes bi :: 'u word)"
  defines "appended \<equiv> tl (BIOSInformation_lines TYPE('u) bi)"
  defines "shown \<equiv> filter (prefix (TAB # ''ROM Size: '')) appended"
  shows \<open>BIOSInformation_String TYPE('u) bi =
       strings_Join (HeaderString bi # appended) ''\<newline>''
     \<and> shown =
       [TAB # ''ROM Size: '' @
          (if bs < 1024 then fmt_d bs
           else if bs < 1024 * 1024 then fmt_d (bs div 1024) @ '' kB''
           else if bs < 1024 * 1024 * 1024 then fmt_d (bs div (1024 * 1024)) @ '' MB''
           else fmt_d (bs div (1024 * 1024 * 1024)) @ '' GB'')]
     \<and> (\<exists>(u, sfx) \<in> set [(1, []), (1024, '' kB''), (1048576, '' MB''), (1073741824, '' GB'')].
          shown = [TAB # ''ROM Size: '' @ fmt_d (bs div u) @ sfx]
          \<and> (1 \<le> bs \<longrightarrow> 1 \<le> bs div u)
          \<and> (\<forall>u' \<in> {1, 1024, 1048576, 1073741824}. u < u' \<longrightarrow> bs div u' = 0))\<close>
proof -
  have joined: "BIOSInformation_String TYPE('u) bi =
       strings_Join (HeaderString bi # appended) ''\<newline>''"
    unfolding appended_def by (rule BIOSInformation_String_lines)
  have line: "shown =
       [TAB # ''ROM Size: '' @
          (if bs < 1024 then fmt_d bs
           else if bs < 1048576 then fmt_d (bs div 1024) @ '' kB''
           else if bs < 1073741824 then fmt_d (bs div 1048576) @ '' MB''
           else fmt_d (bs div 1073741824) @ '' GB'')]"
    unfolding shown_def appended_def bs_def by (rule filter_ROM_Size [OF assms(1)])
  consider "bs < 1024" | "1024 \<le> bs" "bs < 1048576" | "1048576 \<le> bs" "bs < 1073741824"
    | "1073741824 \<le> bs"
    by linarith
  then have "\<exists>(u, sfx) \<in> set [(1, []), (1024, '' kB''), (1048576, '' MB''), (1073741824, '' GB'')].
          shown = [TAB # ''ROM Size: '' @ fmt_d (bs div u) @ sfx]
          \<and> (1 \<le> bs \<longrightarrow> 1 \<le> bs div u)
          \<and> (\<forall>u' \<in> {1, 1024, 1048576, 1073741824}. u < u' \<longrightarrow> bs div u' = 0)"
  proof cases
    case 1
    then show ?thesis by (simp add: line)
  next
    case 2
    then have "1 \<le> bs div 1024" by (simp add: Suc_le_eq div_greater_zero_iff)
    with 2 show ?thesis by (simp add: line)
  next
    case 3
    then have "1 \<le> bs div 1048576" by (simp add: Suc_le_eq div_greater_zero_iff)
    with 3 show ?thesis by (simp add: line)
  next
    case 4
    then have "1 \<le> bs div 1073741824" by (simp add: Suc_le_eq div_greater_zero_iff)
    with 4 show ?thesis by (simp add: line)
  qed
  with joined line show ?thesis by simp
qed

theorem ROM_size_line_witness:
  \<open>32 \<le> LENGTH(64) \<and> 32 \<le> LENGTH(32)
   \<and> BIOSInformation_String TYPE(64) (example_record 0x1A 0xFF 0x4010) =
     strings_Join
       [[], TAB # ''Vendor: '', TAB # ''Version: '', TAB # ''Release Date: '',
        TAB # ''ROM Size: 16 GB'', TAB # ''Characteristics:\<newline>'', [], [],
        TAB # ''BIOS Revision: 0.0'', TAB # ''Firmware Revision: 0.0'']
       ''\<newline>''
   \<and> BIOSInformation_String TYPE(32) (example_record 0x12 0 0) =
     strings_Join
       [[], TAB # ''Vendor: '', TAB # ''Version: '', TAB # ''Release Date: '',
        TAB # ''ROM Size: 64 kB'', TAB # ''Characteristics:\<newline>'', [], []]
       ''\<newline>''
   \<and> filter (prefix (TAB # ''ROM Size: ''))
      (tl (BIOSInformation_lines TYPE(64) (example_record 0x1A 0xFF 0x4010))) =
        [TAB # ''ROM Size: 16 GB'']
   \<and> filter (prefix (TAB # ''ROM Size: ''))
      (tl (BIOSInformation_lines TYPE(64) (example_record 0x12 0xFF 0))) =
        [TAB # ''ROM Size: 16 MB'']
   \<and> filter (prefix (TAB # ''ROM Size: ''))
      (tl (BIOSInformation_lines TYPE(32) (example_record 0x12 0xFF 0))) =
        [TAB # ''ROM Size: 16 MB'']
   \<and> filter (prefix (TAB # ''ROM Size: ''))
      (tl (BIOSInformation_lines TYPE(32) (example_record 0x12 0 0))) =
        [TAB # ''ROM Size: 64 kB'']
   \<and> filter (prefix (TAB # ''ROM Size: ''))
      (tl (BIOSInformation_lines TYPE(64) (example_record 0x1A 0xFF 0x8005))) =
        [TAB # ''ROM Size: 5'']
   \<and> filter (prefix (TAB # ''ROM Size: ''))
      (tl (BIOSInformation_lines TYPE(64) (example_record 0x1A 0xFF 0))) =
        [TAB # ''ROM Size: 0'']\<close>
  using ROM_size_line [where 'u = 64, of "example_record 0x1A 0xFF 0x4010"]
    ROM_size_line [where 'u = 64, of "example_record 0x12 0xFF 0"]
    ROM_size_line [where 'u = 32, of "example_record 0x12 0xFF 0"]
    ROM_size_line [where 'u = 32, of "example_record 0x12 0 0"]
    ROM_size_line [where 'u = 64, of "example_record 0x1A 0xFF 0x8005"]
    ROM_size_line [where 'u = 64, of "example_record 0x1A 0xFF 0"]
  by (simp add: tl_lines example_record_simps example_fields flag_String_zero
      GetROMSizeBytes_def fmt_d.simps)

end
